theory Spec2Isabelle
  imports Main
begin

section \<open>RBAC permission checks of the API layer\<close>

text \<open>
  A shallow embedding of \<^verbatim>\<open>engine/apps/api/permissions/__init__.py\<close>: the permission
  identifiers, the evaluator \<^verbatim>\<open>has_permissions\<close>, the request and object gates of
  \<^verbatim>\<open>RBACPermission\<close> and the object-level policies \<^verbatim>\<open>IsOwner\<close>,
  \<^verbatim>\<open>HasRBACPermissions\<close> and \<^verbatim>\<open>IsOwnerOrHasRBACPermissions\<close>.
  A Python exception is the \<open>Inl\<close> branch of a sum; a returned boolean is \<open>Inr\<close>.
\<close>

subsection \<open>Permission identifiers\<close>

definition ACTION_PREFIX :: string where
  "ACTION_PREFIX = ''grafana-oncall-app''"

datatype Resources =
    ALERT_GROUPS
  | INTEGRATIONS
  | ESCALATION_CHAINS
  | SCHEDULES
  | CHATOPS
  | OUTGOING_WEBHOOKS
  | MAINTENANCE
  | API_KEYS
  | NOTIFICATION_SETTINGS
  | USER_SETTINGS
  | OTHER_SETTINGS
  | IMPOSSIBLE_TESTING_RESOURCE

fun Resources_value :: "Resources \<Rightarrow> string" where
  "Resources_value ALERT_GROUPS = ''alert-groups''"
| "Resources_value INTEGRATIONS = ''integrations''"
| "Resources_value ESCALATION_CHAINS = ''escalation-chains''"
| "Resources_value SCHEDULES = ''schedules''"
| "Resources_value CHATOPS = ''chatops''"
| "Resources_value OUTGOING_WEBHOOKS = ''outgoing-webhooks''"
| "Resources_value MAINTENANCE = ''maintenance''"
| "Resources_value API_KEYS = ''api-keys''"
| "Resources_value NOTIFICATION_SETTINGS = ''notification-settings''"
| "Resources_value USER_SETTINGS = ''user-settings''"
| "Resources_value OTHER_SETTINGS = ''other-settings''"
| "Resources_value IMPOSSIBLE_TESTING_RESOURCE = ''impossible-testing''"

datatype Actions = READ | WRITE | ADMIN | IMPOSSIBLE_TESTING_ACTION

fun Actions_value :: "Actions \<Rightarrow> string" where
  "Actions_value READ = ''read''"
| "Actions_value WRITE = ''write''"
| "Actions_value ADMIN = ''admin''"
| "Actions_value IMPOSSIBLE_TESTING_ACTION = ''impossible-testing''"

text \<open>
  \<^verbatim>\<open>_generate_permission_string(resource, action, ignore_prefix=False)\<close>: the f-string
  \<^verbatim>\<open>{'' if ignore_prefix else with_prefix}{resource.value}:{action.value}\<close> with
  \<^verbatim>\<open>with_prefix = ACTION_PREFIX + "."\<close>.
\<close>

definition generate_permission_string :: "Resources \<Rightarrow> Actions \<Rightarrow> bool \<Rightarrow> string" where
  "generate_permission_string resource action ignore_prefix =
     (let with_prefix = ACTION_PREFIX @ ''.''
      in (if ignore_prefix then [] else with_prefix)
           @ Resources_value resource @ '':'' @ Actions_value action)"

text \<open>The members of the enumeration \<^verbatim>\<open>RBACPermission.Permissions\<close> and their values.\<close>

datatype Permissions =
    ALERT_GROUPS_READ
  | ALERT_GROUPS_WRITE
  | INTEGRATIONS_READ
  | INTEGRATIONS_WRITE
  | ESCALATION_CHAINS_READ
  | ESCALATION_CHAINS_WRITE
  | SCHEDULES_READ
  | SCHEDULES_WRITE
  | CHATOPS_READ
  | CHATOPS_WRITE
  | OUTGOING_WEBHOOKS_READ
  | OUTGOING_WEBHOOKS_WRITE
  | MAINTENANCE_READ
  | MAINTENANCE_WRITE
  | API_KEYS_READ
  | API_KEYS_WRITE
  | NOTIFICATION_SETTINGS_READ
  | NOTIFICATION_SETTINGS_WRITE
  | USER_SETTINGS_READ
  | USER_SETTINGS_WRITE
  | USER_SETTINGS_ADMIN
  | OTHER_SETTINGS_READ
  | OTHER_SETTINGS_WRITE
  | TESTING

fun Permissions_value :: "Permissions \<Rightarrow> string" where
  "Permissions_value ALERT_GROUPS_READ = generate_permission_string ALERT_GROUPS READ False"
| "Permissions_value ALERT_GROUPS_WRITE = generate_permission_string ALERT_GROUPS WRITE False"
| "Permissions_value INTEGRATIONS_READ = generate_permission_string INTEGRATIONS READ False"
| "Permissions_value INTEGRATIONS_WRITE = generate_permission_string INTEGRATIONS WRITE False"
| "Permissions_value ESCALATION_CHAINS_READ =
     generate_permission_string ESCALATION_CHAINS READ False"
| "Permissions_value ESCALATION_CHAINS_WRITE =
     generate_permission_string ESCALATION_CHAINS WRITE False"
| "Permissions_value SCHEDULES_READ = generate_permission_string SCHEDULES READ False"
| "Permissions_value SCHEDULES_WRITE = generate_permission_string SCHEDULES WRITE False"
| "Permissions_value CHATOPS_READ = generate_permission_string CHATOPS READ False"
| "Permissions_value CHATOPS_WRITE = generate_permission_string CHATOPS WRITE False"
| "Permissions_value OUTGOING_WEBHOOKS_READ =
     generate_permission_string OUTGOING_WEBHOOKS READ False"
| "Permissions_value OUTGOING_WEBHOOKS_WRITE =
     generate_permission_string OUTGOING_WEBHOOKS WRITE False"
| "Permissions_value MAINTENANCE_READ = generate_permission_string MAINTENANCE READ False"
| "Permissions_value MAINTENANCE_WRITE = generate_permission_string MAINTENANCE WRITE False"
| "Permissions_value API_KEYS_READ = generate_permission_string API_KEYS READ False"
| "Permissions_value API_KEYS_WRITE = generate_permission_string API_KEYS WRITE False"
| "Permissions_value NOTIFICATION_SETTINGS_READ =
     generate_permission_string NOTIFICATION_SETTINGS READ False"
| "Permissions_value NOTIFICATION_SETTINGS_WRITE =
     generate_permission_string NOTIFICATION_SETTINGS WRITE False"
| "Permissions_value USER_SETTINGS_READ = generate_permission_string USER_SETTINGS READ False"
| "Permissions_value USER_SETTINGS_WRITE = generate_permission_string USER_SETTINGS WRITE False"
| "Permissions_value USER_SETTINGS_ADMIN = generate_permission_string USER_SETTINGS ADMIN False"
| "Permissions_value OTHER_SETTINGS_READ = generate_permission_string OTHER_SETTINGS READ False"
| "Permissions_value OTHER_SETTINGS_WRITE = generate_permission_string OTHER_SETTINGS WRITE False"
| "Permissions_value TESTING =
     generate_permission_string IMPOSSIBLE_TESTING_RESOURCE IMPOSSIBLE_TESTING_ACTION False"

subsection \<open>The evaluator\<close>

text \<open>\<^verbatim>\<open>GrafanaPermission\<close> is a typed dictionary with the one key \<^verbatim>\<open>action\<close>.\<close>

record GrafanaPermission =
  action :: string

text \<open>
  The inner loop of \<^verbatim>\<open>has_permissions\<close>: \<^verbatim>\<open>granted_permission\<close> starts as
  \<^verbatim>\<open>None\<close> and becomes the first user permission whose \<^verbatim>\<open>action\<close> equals the
  required permission's value, where the loop breaks.
\<close>

fun granted_permission :: "GrafanaPermission list \<Rightarrow> Permissions \<Rightarrow> GrafanaPermission option" where
  "granted_permission [] required_permission = None"
| "granted_permission (user_permission # user_permissions) required_permission =
     (if action user_permission = Permissions_value required_permission
      then Some user_permission
      else granted_permission user_permissions required_permission)"

text \<open>
  The outer loop: \<^verbatim>\<open>user_has_all_required_permissions\<close> starts as \<^verbatim>\<open>True\<close>; the first
  required permission without a grant sets it to \<^verbatim>\<open>False\<close> and breaks.
\<close>

fun has_permissions :: "GrafanaPermission list \<Rightarrow> Permissions list \<Rightarrow> bool" where
  "has_permissions user_permissions [] = True"
| "has_permissions user_permissions (required_permission # required_permissions) =
     (case granted_permission user_permissions required_permission of
        None \<Rightarrow> False
      | Some _ \<Rightarrow> has_permissions user_permissions required_permissions)"

subsection \<open>Python values, errors and attribute access\<close>

text \<open>
  Every Python value is an object; a \<open>ref\<close> is the identity of one. The heap gives, for
  each object, the attributes that \<^verbatim>\<open>getattr\<close> finds on it. The module only reads
  objects, so the heap is a parameter and is never updated. The comparison
  \<^verbatim>\<open>owner == request.user\<close> is equality of references.
\<close>

type_synonym ref = nat

type_synonym heap = "ref \<Rightarrow> string \<rightharpoonup> ref"

datatype error = AssertionError | AttributeError string

text \<open>Python's built-in \<^verbatim>\<open>getattr(obj, name)\<close> with no default.\<close>

definition getattr :: "heap \<Rightarrow> ref \<Rightarrow> string \<Rightarrow> error + ref" where
  "getattr h obj name =
     (case h obj name of None \<Rightarrow> Inl (AttributeError name) | Some v \<Rightarrow> Inr v)"

text \<open>
  Modelled from the spec: \<^verbatim>\<open>getattrd\<close> is imported from \<^verbatim>\<open>common.utils\<close>, whose
  source is not part of the files at hand. The spec says that the ownership path is a
  dotted attribute path, resolved ``by walking nested attribute access (e.g.
  "schedule.user" reads object.schedule.user)'', and that ``resolution failure (missing
  attribute anywhere in the path) is a programmer error and must fail loudly''. So the
  path is split at its dots, the names are read one after the other, each on the value
  the previous one gave, and the first missing attribute raises.
\<close>

fun split_dot :: "string \<Rightarrow> string list" where
  "split_dot [] = [[]]"
| "split_dot (c # cs) =
     (if c = CHR ''.'' then [] # split_dot cs
      else (case split_dot cs of [] \<Rightarrow> [[c]] | w # ws \<Rightarrow> (c # w) # ws))"

fun walk :: "heap \<Rightarrow> ref \<Rightarrow> string list \<Rightarrow> error + ref" where
  "walk h obj [] = Inr obj"
| "walk h obj (name # names) =
     (case getattr h obj name of Inl e \<Rightarrow> Inl e | Inr v \<Rightarrow> walk h v names)"

definition getattrd :: "heap \<Rightarrow> ref \<Rightarrow> string \<Rightarrow> error + ref" where
  "getattrd h obj name = walk h obj (split_dot name)"

text \<open>A dotted path written from its attribute names, as \<^verbatim>\<open>".".join(names)\<close>.\<close>

fun dotted :: "string list \<Rightarrow> string" where
  "dotted [] = []"
| "dotted [name] = name"
| "dotted (name # names) = name @ ''.'' @ dotted names"

subsection \<open>Requests, views and object-level policies\<close>

text \<open>
  \<^verbatim>\<open>request.user\<close> is the principal: the object it is (\<open>ident\<close>) and the list read
  by \<^verbatim>\<open>request.user.permissions\<close>. \<^verbatim>\<open>request.method\<close> is the HTTP method.
\<close>

record User =
  ident :: ref
  permissions :: "GrafanaPermission list"

record Request =
  user :: User
  request_method :: string

text \<open>
  The policies that the module defines. \<^verbatim>\<open>IsOwner(ownership_field)\<close> keeps an
  optional path, \<^verbatim>\<open>HasRBACPermissions(required_permissions)\<close> a list, and
  \<^verbatim>\<open>IsOwnerOrHasRBACPermissions(required_permissions, ownership_field)\<close> builds one of
  each from its two arguments.
\<close>

datatype policy =
    IsOwner "string option"
  | HasRBACPermissions "Permissions list"
  | IsOwnerOrHasRBACPermissions "Permissions list" "string option"

text \<open>
  The two shapes of a view: a \<^verbatim>\<open>ViewSetMixin\<close> instance carries its current
  \<^verbatim>\<open>action\<close>, any other \<^verbatim>\<open>APIView\<close> does not.
\<close>

datatype view_shape = ViewSet string | APIView

text \<open>
  \<^verbatim>\<open>rbac_permissions\<close> and \<^verbatim>\<open>rbac_object_permissions\<close> are read with
  \<^verbatim>\<open>getattr(view, ..., None)\<close>: \<open>None\<close> here is an attribute that is missing (or is
  \<^verbatim>\<open>None\<close>). The first is a dictionary read with \<^verbatim>\<open>.get\<close>; the second is a
  dictionary iterated with \<^verbatim>\<open>.items()\<close>, in insertion order, so it is a list of
  pairs (two policy instances built from the same arguments are two keys).
\<close>

record View =
  shape :: view_shape
  rbac_permissions :: "(string \<rightharpoonup> Permissions list) option"
  rbac_object_permissions :: "(policy \<times> string list) list option"

text \<open>
  \<^verbatim>\<open>str.lower()\<close> on the characters of an HTTP method: an ASCII capital letter
  becomes the small one, every other byte stays.
\<close>

definition lower_char :: "char \<Rightarrow> char" where
  "lower_char c =
     (let n = (of_char c :: nat) in if 65 \<le> n \<and> n \<le> 90 then char_of (n + 32) else c)"

definition lower :: "string \<Rightarrow> string" where
  "lower s = map lower_char s"

fun get_view_action :: "Request \<Rightarrow> View \<Rightarrow> string" where
  "get_view_action request view =
     (case shape view of ViewSet view_action \<Rightarrow> view_action | APIView \<Rightarrow> lower (request_method request))"

subsection \<open>The object-level policies\<close>

definition IsOwner_has_object_permission ::
  "heap \<Rightarrow> string option \<Rightarrow> Request \<Rightarrow> View \<Rightarrow> ref \<Rightarrow> error + bool" where
  "IsOwner_has_object_permission h ownership_field request view obj =
     (case (case ownership_field of None \<Rightarrow> Inr obj | Some field \<Rightarrow> getattrd h obj field) of
        Inl e \<Rightarrow> Inl e
      | Inr owner \<Rightarrow> Inr (owner = ident (user request)))"

definition HasRBACPermissions_has_object_permission ::
  "Permissions list \<Rightarrow> Request \<Rightarrow> View \<Rightarrow> ref \<Rightarrow> error + bool" where
  "HasRBACPermissions_has_object_permission required_permissions request view obj =
     Inr (has_permissions (permissions (user request)) required_permissions)"

text \<open>
  Python's \<^verbatim>\<open>a or b\<close>: \<^verbatim>\<open>b\<close> is evaluated only when \<^verbatim>\<open>a\<close> returned false, and
  an exception of \<^verbatim>\<open>a\<close> leaves the expression at once.
\<close>

definition IsOwnerOrHasRBACPermissions_has_object_permission ::
  "heap \<Rightarrow> Permissions list \<Rightarrow> string option \<Rightarrow> Request \<Rightarrow> View \<Rightarrow> ref \<Rightarrow> error + bool" where
  "IsOwnerOrHasRBACPermissions_has_object_permission h required_permissions ownership_field
       request view obj =
     (case IsOwner_has_object_permission h ownership_field request view obj of
        Inl e \<Rightarrow> Inl e
      | Inr True \<Rightarrow> Inr True
      | Inr False \<Rightarrow>
          HasRBACPermissions_has_object_permission required_permissions request view obj)"

text \<open>The call \<^verbatim>\<open>PermissionClass.has_object_permission(request, view, obj)\<close>.\<close>

fun policy_has_object_permission ::
  "heap \<Rightarrow> policy \<Rightarrow> Request \<Rightarrow> View \<Rightarrow> ref \<Rightarrow> error + bool" where
  "policy_has_object_permission h (IsOwner ownership_field) request view obj =
     IsOwner_has_object_permission h ownership_field request view obj"
| "policy_has_object_permission h (HasRBACPermissions required_permissions) request view obj =
     HasRBACPermissions_has_object_permission required_permissions request view obj"
| "policy_has_object_permission h (IsOwnerOrHasRBACPermissions required_permissions
       ownership_field) request view obj =
     IsOwnerOrHasRBACPermissions_has_object_permission h required_permissions ownership_field
       request view obj"

subsection \<open>The gates of \<^verbatim>\<open>RBACPermission\<close>\<close>

text \<open>
  \<^verbatim>\<open>has_permission\<close>: the action is resolved, the assertion fails when the view has no
  \<^verbatim>\<open>rbac_permissions\<close>, and \<^verbatim>\<open>rbac_permissions.get(action, [])\<close> is what the
  evaluator is asked for.
\<close>

definition RBACPermission_has_permission :: "Request \<Rightarrow> View \<Rightarrow> error + bool" where
  "RBACPermission_has_permission request view =
     (let view_action = get_view_action request view
      in case rbac_permissions view of
           None \<Rightarrow> Inl AssertionError
         | Some table \<Rightarrow>
             Inr (has_permissions (permissions (user request))
                    (case table view_action of None \<Rightarrow> [] | Some required \<Rightarrow> required)))"

text \<open>
  The loop of \<^verbatim>\<open>has_object_permission\<close> over \<^verbatim>\<open>rbac_object_permissions.items()\<close>:
  the first entry whose actions hold the action returns what its policy returns, and the
  end of the loop returns \<^verbatim>\<open>False\<close>.
\<close>

fun object_permissions_loop ::
  "heap \<Rightarrow> Request \<Rightarrow> View \<Rightarrow> ref \<Rightarrow> string \<Rightarrow> (policy \<times> string list) list \<Rightarrow> error + bool"
  where
  "object_permissions_loop h request view obj view_action [] = Inr False"
| "object_permissions_loop h request view obj view_action ((PermissionClass, actions) # items) =
     (if view_action \<in> set actions
      then policy_has_object_permission h PermissionClass request view obj
      else object_permissions_loop h request view obj view_action items)"

text \<open>
  \<^verbatim>\<open>if rbac_object_permissions:\<close> is Python's truth test: a missing table and an empty
  dictionary both skip the loop and reach the final \<^verbatim>\<open>return True\<close>.
\<close>

definition RBACPermission_has_object_permission ::
  "heap \<Rightarrow> Request \<Rightarrow> View \<Rightarrow> ref \<Rightarrow> error + bool" where
  "RBACPermission_has_object_permission h request view obj =
     (case rbac_object_permissions view of
        None \<Rightarrow> Inr True
      | Some table \<Rightarrow>
          if table \<noteq> []
          then object_permissions_loop h request view obj (get_view_action request view) table
          else Inr True)"

subsection \<open>Example objects\<close>

text \<open>
  The objects of the module's tests, for the concrete instances below: object 1 is a
  user, object 2 a schedule whose \<^verbatim>\<open>user\<close> is object 1, object 3 a thing whose
  \<^verbatim>\<open>schedule\<close> is object 2, and object 4 is another user. No other attribute is
  found on any object.
\<close>

definition example_heap :: heap where
  "example_heap =
     (\<lambda>obj. if obj = 3 then [''schedule'' \<mapsto> 2]
            else if obj = 2 then [''user'' \<mapsto> 1]
            else Map.empty)"

subsection \<open>Properties of the evaluator\<close>

lemma granted_permission_None:
  "granted_permission G r = None \<longleftrightarrow> (\<forall>g \<in> set G. action g \<noteq> Permissions_value r)"
  by (induction G) auto

lemma has_permissions_iff:
  "has_permissions G R \<longleftrightarrow> (\<forall>r \<in> set R. \<exists>g \<in> set G. action g = Permissions_value r)"
proof (induction R)
  case Nil
  show ?case by simp
next
  case (Cons r R)
  show ?case
  proof (cases "granted_permission G r")
    case None
    then show ?thesis
      using granted_permission_None [of G r] by auto
  next
    case (Some g)
    then have "\<exists>g \<in> set G. action g = Permissions_value r"
      using granted_permission_None [of G r] by auto
    with Some Cons.IH show ?thesis by simp
  qed
qed

text \<open>
  Claim C2. \<^verbatim>\<open>has_permissions(G, R)\<close> is true exactly when every permission of \<open>R\<close>
  has a value equal, as a string, to the \<^verbatim>\<open>action\<close> of some element of \<open>G\<close>. So an
  empty \<open>R\<close> gives true for every \<open>G\<close>, and two pairs of lists with the same elements
  (in any order, any number of times) give the same result.
\<close>

theorem has_permissions_iff_every_required_granted:
  "(has_permissions G R \<longleftrightarrow> (\<forall>r \<in> set R. \<exists>g \<in> set G. action g = Permissions_value r))
   \<and> has_permissions G []
   \<and> (set G = set G' \<and> set R = set R' \<longrightarrow> has_permissions G R = has_permissions G' R')"
proof -
  have "set G = set G' \<and> set R = set R' \<longrightarrow> has_permissions G R = has_permissions G' R'"
    by (simp add: has_permissions_iff)
  then show ?thesis
    using has_permissions_iff [of G R] by simp
qed

theorem has_permissions_iff_every_required_granted_witness:
  "has_permissions
     [\<lparr>action = ''grafana-oncall-app.alert-groups:read''\<rparr>,
      \<lparr>action = ''grafana-oncall-app.alert-groups:write''\<rparr>]
     [ALERT_GROUPS_WRITE, ALERT_GROUPS_READ, ALERT_GROUPS_WRITE]
   \<and> \<not> has_permissions
     [\<lparr>action = ''grafana-oncall-app.impossible-testing:impossible-testing''\<rparr>]
     [ALERT_GROUPS_READ]
   \<and> has_permissions
     [\<lparr>action = ''grafana-oncall-app.alert-groups:write''\<rparr>,
      \<lparr>action = ''grafana-oncall-app.alert-groups:read''\<rparr>,
      \<lparr>action = ''grafana-oncall-app.alert-groups:write''\<rparr>]
     [ALERT_GROUPS_READ, ALERT_GROUPS_WRITE]"
proof -
  let ?r = "\<lparr>action = ''grafana-oncall-app.alert-groups:read''\<rparr>"
  let ?w = "\<lparr>action = ''grafana-oncall-app.alert-groups:write''\<rparr>"
  let ?t = "\<lparr>action = ''grafana-oncall-app.impossible-testing:impossible-testing''\<rparr>"
  let ?R = "[ALERT_GROUPS_WRITE, ALERT_GROUPS_READ, ALERT_GROUPS_WRITE]"
  note vals = generate_permission_string_def ACTION_PREFIX_def
  have a: "has_permissions [?r, ?w] ?R"
    by (rule iffD2 [OF has_permissions_iff_every_required_granted
          [of "[?r, ?w]" ?R "[?r, ?w]" ?R, THEN conjunct1]])
       (simp add: vals)
  have b: "\<not> has_permissions [?t] [ALERT_GROUPS_READ]"
    using has_permissions_iff_every_required_granted
      [of "[?t]" "[ALERT_GROUPS_READ]" "[?t]" "[ALERT_GROUPS_READ]", THEN conjunct1]
    by (simp add: vals)
  have s: "set [?r, ?w] = set [?w, ?r, ?w] \<and> set ?R = set [ALERT_GROUPS_READ, ALERT_GROUPS_WRITE]"
    by auto
  have c: "has_permissions [?w, ?r, ?w] [ALERT_GROUPS_READ, ALERT_GROUPS_WRITE]"
    using has_permissions_iff_every_required_granted
      [of "[?r, ?w]" ?R "[?w, ?r, ?w]" "[ALERT_GROUPS_READ, ALERT_GROUPS_WRITE]",
       THEN conjunct2, THEN conjunct2, rule_format, OF s] a
    by simp
  from a b c show ?thesis by blast
qed

text \<open>
  Claim C10. The evaluator is monotone in the granted list: when every element of \<open>G\<close>
  occurs in \<open>G'\<close> and \<^verbatim>\<open>has_permissions(G, R)\<close> is true, then
  \<^verbatim>\<open>has_permissions(G', R)\<close> is true.
\<close>

theorem has_permissions_monotone:
  "set G \<subseteq> set G' \<Longrightarrow> has_permissions G R \<Longrightarrow> has_permissions G' R"
  unfolding has_permissions_iff by blast

theorem has_permissions_monotone_witness:
  "set [\<lparr>action = ''grafana-oncall-app.schedules:read''\<rparr>]
     \<subseteq> set [\<lparr>action = ''grafana-oncall-app.schedules:write''\<rparr>,
            \<lparr>action = ''grafana-oncall-app.schedules:read''\<rparr>]
   \<and> has_permissions [\<lparr>action = ''grafana-oncall-app.schedules:read''\<rparr>] [SCHEDULES_READ]
   \<and> has_permissions
       [\<lparr>action = ''grafana-oncall-app.schedules:write''\<rparr>,
        \<lparr>action = ''grafana-oncall-app.schedules:read''\<rparr>] [SCHEDULES_READ]"
proof -
  let ?r = "\<lparr>action = ''grafana-oncall-app.schedules:read''\<rparr>"
  let ?w = "\<lparr>action = ''grafana-oncall-app.schedules:write''\<rparr>"
  have sub: "set [?r] \<subseteq> set [?w, ?r]" by simp
  have small: "has_permissions [?r] [SCHEDULES_READ]"
    by (simp add: generate_permission_string_def ACTION_PREFIX_def)
  from sub small has_permissions_monotone [OF sub small] show ?thesis by blast
qed

subsection \<open>Properties of the permission identifiers\<close>

lemma split_sep_unique:
  "c \<notin> set x \<Longrightarrow> c \<notin> set x' \<Longrightarrow> x @ c # y = x' @ c # y' \<Longrightarrow> x = x' \<and> y = y'"
proof (induction x arbitrary: x')
  case Nil
  then show ?case by (cases x') auto
next
  case (Cons a x)
  then show ?case by (cases x') auto
qed

lemma Resources_value_no_colon: "CHR '':'' \<notin> set (Resources_value r)"
  by (cases r) simp_all

lemma Resources_value_inj: "Resources_value r = Resources_value r' \<Longrightarrow> r = r'"
  by (cases r; cases r'; simp)

lemma Actions_value_inj: "Actions_value a = Actions_value a' \<Longrightarrow> a = a'"
  by (cases a; cases a'; simp)

lemma generate_permission_string_inj:
  assumes "generate_permission_string r a p = generate_permission_string r' a' p"
  shows "r = r' \<and> a = a'"
proof -
  from assms have "Resources_value r @ CHR '':'' # Actions_value a
      = Resources_value r' @ CHR '':'' # Actions_value a'"
    by (simp add: generate_permission_string_def)
  then have "Resources_value r = Resources_value r' \<and> Actions_value a = Actions_value a'"
    using split_sep_unique [OF Resources_value_no_colon Resources_value_no_colon] by blast
  then show ?thesis
    using Resources_value_inj Actions_value_inj by blast
qed

text \<open>
  Claim C9. With \<^verbatim>\<open>ignore_prefix\<close> set, the string is
  \<^verbatim>\<open><resource>:<action>\<close>; without it, the string is that one after
  \<^verbatim>\<open>ACTION_PREFIX\<close> and a dot, so dropping the prefix and the dot gives the short
  form back. In either mode two pairs of a resource and an action give the same string
  only when they are the same pair.
\<close>

theorem generate_permission_string_prefix_and_injective:
  "generate_permission_string resource act True
     = Resources_value resource @ '':'' @ Actions_value act
   \<and> generate_permission_string resource act False
     = ACTION_PREFIX @ ''.'' @ generate_permission_string resource act True
   \<and> drop (length (ACTION_PREFIX @ ''.'')) (generate_permission_string resource act False)
     = generate_permission_string resource act True
   \<and> (generate_permission_string resource act ignore_prefix
        = generate_permission_string resource' act' ignore_prefix
      \<longleftrightarrow> resource = resource' \<and> act = act')"
proof -
  have a: "generate_permission_string resource act True
      = Resources_value resource @ '':'' @ Actions_value act"
    by (simp add: generate_permission_string_def)
  have b: "generate_permission_string resource act False
      = ACTION_PREFIX @ ''.'' @ generate_permission_string resource act True"
    by (simp add: generate_permission_string_def)
  have c: "drop (length (ACTION_PREFIX @ ''.'')) (generate_permission_string resource act False)
      = generate_permission_string resource act True"
    unfolding b by (simp only: append_assoc [symmetric] append_eq_conv_conj drop_append length_append) simp
  have d: "generate_permission_string resource act ignore_prefix
        = generate_permission_string resource' act' ignore_prefix
      \<longleftrightarrow> resource = resource' \<and> act = act'"
    using generate_permission_string_inj by blast
  from a b c d show ?thesis by blast
qed

theorem generate_permission_string_prefix_and_injective_witness:
  "generate_permission_string SCHEDULES READ True = ''schedules:read''
   \<and> generate_permission_string SCHEDULES READ False = ''grafana-oncall-app.schedules:read''
   \<and> generate_permission_string SCHEDULES READ False
       \<noteq> generate_permission_string SCHEDULES WRITE False"
proof -
  note t = generate_permission_string_prefix_and_injective
    [of SCHEDULES READ False SCHEDULES WRITE]
  have short: "generate_permission_string SCHEDULES READ True = ''schedules:read''"
    using t [THEN conjunct1] by simp
  have long: "generate_permission_string SCHEDULES READ False
      = ''grafana-oncall-app.schedules:read''"
    using t [THEN conjunct2, THEN conjunct1] short by (simp add: ACTION_PREFIX_def)
  have differ: "generate_permission_string SCHEDULES READ False
      \<noteq> generate_permission_string SCHEDULES WRITE False"
    using t [THEN conjunct2, THEN conjunct2, THEN conjunct2] by simp
  from short long differ show ?thesis by blast
qed

subsection \<open>Properties of the gates\<close>

lemma object_permissions_loop_first_match:
  "\<forall>entry \<in> set pre. a \<notin> set (snd entry) \<Longrightarrow> a \<in> set actions \<Longrightarrow>
   object_permissions_loop h request view obj a (pre @ (PermissionClass, actions) # post)
     = policy_has_object_permission h PermissionClass request view obj"
  by (induction pre) auto

lemma object_permissions_loop_no_match:
  "\<forall>entry \<in> set table. a \<notin> set (snd entry) \<Longrightarrow>
   object_permissions_loop h request view obj a table = Inr False"
  by (induction table) auto

text \<open>
  Claim C3. For a view of either shape that has no \<^verbatim>\<open>rbac_permissions\<close>,
  \<^verbatim>\<open>has_permission\<close> raises \<^verbatim>\<open>AssertionError\<close> for every request: it returns
  neither true nor false.
\<close>

theorem RBACPermission_has_permission_without_table:
  "rbac_permissions view = None \<Longrightarrow>
   RBACPermission_has_permission request view = Inl AssertionError
   \<and> (\<forall>b. RBACPermission_has_permission request view \<noteq> Inr b)"
  by (simp add: RBACPermission_has_permission_def)

theorem RBACPermission_has_permission_without_table_witness:
  "RBACPermission_has_permission
     \<lparr>user = \<lparr>ident = 1, permissions = []\<rparr>, request_method = ''GET''\<rparr>
     \<lparr>shape = ViewSet ''hello'', rbac_permissions = None, rbac_object_permissions = None\<rparr>
     = Inl AssertionError
   \<and> RBACPermission_has_permission
     \<lparr>user = \<lparr>ident = 1, permissions = []\<rparr>, request_method = ''HELLO''\<rparr>
     \<lparr>shape = APIView, rbac_permissions = None, rbac_object_permissions = None\<rparr>
     = Inl AssertionError"
proof -
  let ?viewset =
    "\<lparr>shape = ViewSet ''hello'', rbac_permissions = None, rbac_object_permissions = None\<rparr>"
  let ?apiview = "\<lparr>shape = APIView, rbac_permissions = None, rbac_object_permissions = None\<rparr>"
  have a: "rbac_permissions ?viewset = None" by simp
  have b: "rbac_permissions ?apiview = None" by simp
  show ?thesis
    using RBACPermission_has_permission_without_table [OF a]
      RBACPermission_has_permission_without_table [OF b]
    by blast
qed

text \<open>
  Claim C4. For a view that declares \<^verbatim>\<open>rbac_permissions\<close>, \<^verbatim>\<open>has_permission\<close>
  returns true, whatever the user's permissions, when the table has no entry for the
  resolved action, and otherwise returns \<^verbatim>\<open>has_permissions\<close> of the user's
  permissions and the entry's list.
\<close>

theorem RBACPermission_has_permission_with_table:
  "rbac_permissions view = Some table \<Longrightarrow>
   (table (get_view_action request view) = None \<longrightarrow>
      RBACPermission_has_permission request view = Inr True)
   \<and> (table (get_view_action request view) = Some required \<longrightarrow>
      RBACPermission_has_permission request view
        = Inr (has_permissions (permissions (user request)) required))"
  by (simp add: RBACPermission_has_permission_def)

theorem RBACPermission_has_permission_with_table_witness:
  "RBACPermission_has_permission
     \<lparr>user = \<lparr>ident = 1, permissions = []\<rparr>, request_method = ''GET''\<rparr>
     \<lparr>shape = ViewSet ''list'', rbac_permissions = Some [''approve'' \<mapsto> [SCHEDULES_WRITE]],
      rbac_object_permissions = None\<rparr>
     = Inr True
   \<and> RBACPermission_has_permission
     \<lparr>user = \<lparr>ident = 1, permissions = [\<lparr>action = ''grafana-oncall-app.schedules:read''\<rparr>]\<rparr>,
      request_method = ''GET''\<rparr>
     \<lparr>shape = ViewSet ''approve'', rbac_permissions = Some [''approve'' \<mapsto> [SCHEDULES_WRITE]],
      rbac_object_permissions = None\<rparr>
     = Inr False
   \<and> RBACPermission_has_permission
     \<lparr>user = \<lparr>ident = 1, permissions = [\<lparr>action = ''grafana-oncall-app.schedules:write''\<rparr>]\<rparr>,
      request_method = ''GET''\<rparr>
     \<lparr>shape = ViewSet ''approve'', rbac_permissions = Some [''approve'' \<mapsto> [SCHEDULES_WRITE]],
      rbac_object_permissions = None\<rparr>
     = Inr True"
proof -
  let ?table = "[''approve'' \<mapsto> [SCHEDULES_WRITE]]"
  let ?list = "\<lparr>shape = ViewSet ''list'', rbac_permissions = Some ?table,
      rbac_object_permissions = None\<rparr>"
  let ?approve = "\<lparr>shape = ViewSet ''approve'', rbac_permissions = Some ?table,
      rbac_object_permissions = None\<rparr>"
  let ?nobody = "\<lparr>user = \<lparr>ident = 1, permissions = []\<rparr>, request_method = ''GET''\<rparr>"
  let ?reader = "\<lparr>user = \<lparr>ident = 1,
      permissions = [\<lparr>action = ''grafana-oncall-app.schedules:read''\<rparr>]\<rparr>,
      request_method = ''GET''\<rparr>"
  let ?writer = "\<lparr>user = \<lparr>ident = 1,
      permissions = [\<lparr>action = ''grafana-oncall-app.schedules:write''\<rparr>]\<rparr>,
      request_method = ''GET''\<rparr>"
  note vals = generate_permission_string_def ACTION_PREFIX_def
  have l: "rbac_permissions ?list = Some ?table" by simp
  have a: "rbac_permissions ?approve = Some ?table" by simp
  have 1: "RBACPermission_has_permission ?nobody ?list = Inr True"
    using RBACPermission_has_permission_with_table [OF l, of ?nobody "[]", THEN conjunct1]
    by simp
  have 2: "RBACPermission_has_permission ?reader ?approve = Inr False"
    using RBACPermission_has_permission_with_table
      [OF a, of ?reader "[SCHEDULES_WRITE]", THEN conjunct2]
    by (simp add: vals)
  have 3: "RBACPermission_has_permission ?writer ?approve = Inr True"
    using RBACPermission_has_permission_with_table
      [OF a, of ?writer "[SCHEDULES_WRITE]", THEN conjunct2]
    by (simp add: vals)
  from 1 2 3 show ?thesis by blast
qed

text \<open>
  Claim C5. For a view that has no \<^verbatim>\<open>rbac_object_permissions\<close>,
  \<^verbatim>\<open>has_object_permission\<close> returns true for every request, action and object.
\<close>

theorem RBACPermission_has_object_permission_without_table:
  "rbac_object_permissions view = None \<Longrightarrow>
   RBACPermission_has_object_permission h request view obj = Inr True"
  by (simp add: RBACPermission_has_object_permission_def)

theorem RBACPermission_has_object_permission_without_table_witness:
  "RBACPermission_has_object_permission example_heap
     \<lparr>user = \<lparr>ident = 4, permissions = []\<rparr>, request_method = ''DELETE''\<rparr>
     \<lparr>shape = ViewSet ''potato'', rbac_permissions = None, rbac_object_permissions = None\<rparr>
     2
     = Inr True
   \<and> RBACPermission_has_object_permission example_heap
     \<lparr>user = \<lparr>ident = 4, permissions = []\<rparr>, request_method = ''DELETE''\<rparr>
     \<lparr>shape = APIView, rbac_permissions = None, rbac_object_permissions = None\<rparr>
     2
     = Inr True"
proof -
  let ?viewset =
    "\<lparr>shape = ViewSet ''potato'', rbac_permissions = None, rbac_object_permissions = None\<rparr>"
  let ?apiview = "\<lparr>shape = APIView, rbac_permissions = None, rbac_object_permissions = None\<rparr>"
  have a: "rbac_object_permissions ?viewset = None" by simp
  have b: "rbac_object_permissions ?apiview = None" by simp
  show ?thesis
    using RBACPermission_has_object_permission_without_table [OF a]
      RBACPermission_has_object_permission_without_table [OF b]
    by blast
qed

text \<open>
  Claim C1 says that a declared table with no entry for the action gives false, the
  empty table included. The truth test \<^verbatim>\<open>if rbac_object_permissions:\<close> sends the empty
  dictionary to the final \<^verbatim>\<open>return True\<close> instead, as the test
  \<^verbatim>\<open>test_has_object_permission_works_if_no_permission_class_specified_for_action\<close>
  expects of a view built with \<^verbatim>\<open>rbac_object_permissions={}\<close>.
\<close>

theorem RBACPermission_has_object_permission_empty_table:
  "RBACPermission_has_object_permission example_heap
     \<lparr>user = \<lparr>ident = 4, permissions = []\<rparr>, request_method = ''HELLO''\<rparr>
     \<lparr>shape = ViewSet ''hello'', rbac_permissions = None, rbac_object_permissions = Some []\<rparr>
     2
     = Inr True
   \<and> RBACPermission_has_object_permission example_heap
     \<lparr>user = \<lparr>ident = 4, permissions = []\<rparr>, request_method = ''HELLO''\<rparr>
     \<lparr>shape = ViewSet ''hello'', rbac_permissions = None, rbac_object_permissions = Some []\<rparr>
     2
     \<noteq> Inr False"
  by (simp add: RBACPermission_has_object_permission_def)

text \<open>
  Claim C1, amended. For a view that declares a table \<^verbatim>\<open>rbac_object_permissions\<close>:
  when the table splits into entries whose actions do not hold the resolved action, then
  an entry whose actions hold it, then the rest, \<^verbatim>\<open>has_object_permission\<close> returns
  what that entry's policy returns (or raises what it raises); when the table is not
  empty and no entry's actions hold the action, it returns false; when the table is
  empty, it returns true.
\<close>

theorem RBACPermission_has_object_permission_first_match:
  "rbac_object_permissions view = Some table \<Longrightarrow>
   (table = pre @ (PermissionClass, actions) # post
      \<and> (\<forall>entry \<in> set pre. get_view_action request view \<notin> set (snd entry))
      \<and> get_view_action request view \<in> set actions \<longrightarrow>
    RBACPermission_has_object_permission h request view obj
      = policy_has_object_permission h PermissionClass request view obj)
   \<and> (table \<noteq> [] \<and> (\<forall>entry \<in> set table. get_view_action request view \<notin> set (snd entry)) \<longrightarrow>
    RBACPermission_has_object_permission h request view obj = Inr False)
   \<and> (table = [] \<longrightarrow> RBACPermission_has_object_permission h request view obj = Inr True)"
proof -
  assume t: "rbac_object_permissions view = Some table"
  have first: "RBACPermission_has_object_permission h request view obj
      = policy_has_object_permission h PermissionClass request view obj"
    if "table = pre @ (PermissionClass, actions) # post"
      and "\<forall>entry \<in> set pre. get_view_action request view \<notin> set (snd entry)"
      and "get_view_action request view \<in> set actions"
  proof -
    from that(1) have "table \<noteq> []" by simp
    with t have "RBACPermission_has_object_permission h request view obj
        = object_permissions_loop h request view obj (get_view_action request view) table"
      by (simp add: RBACPermission_has_object_permission_def)
    also have "\<dots> = policy_has_object_permission h PermissionClass request view obj"
      unfolding that(1) using that(2,3) by (rule object_permissions_loop_first_match)
    finally show ?thesis .
  qed
  have none: "RBACPermission_has_object_permission h request view obj = Inr False"
    if "table \<noteq> []"
      and "\<forall>entry \<in> set table. get_view_action request view \<notin> set (snd entry)"
  proof -
    from t that(1) have "RBACPermission_has_object_permission h request view obj
        = object_permissions_loop h request view obj (get_view_action request view) table"
      by (simp add: RBACPermission_has_object_permission_def)
    also have "\<dots> = Inr False"
      using that(2) by (rule object_permissions_loop_no_match)
    finally show ?thesis .
  qed
  have empty: "RBACPermission_has_object_permission h request view obj = Inr True"
    if "table = []"
    using t that by (simp add: RBACPermission_has_object_permission_def)
  from first none empty show ?thesis by blast
qed

theorem RBACPermission_has_object_permission_first_match_witness:
  "RBACPermission_has_object_permission example_heap
     \<lparr>user = \<lparr>ident = 1, permissions = []\<rparr>, request_method = ''DELETE''\<rparr>
     \<lparr>shape = ViewSet ''destroy'', rbac_permissions = None,
      rbac_object_permissions = Some
        [(IsOwner None, [''retrieve'']),
         (HasRBACPermissions [SCHEDULES_WRITE], [''update'', ''destroy'']),
         (IsOwner None, [''destroy''])]\<rparr>
     1
     = Inr False
   \<and> RBACPermission_has_object_permission example_heap
     \<lparr>user = \<lparr>ident = 1, permissions = []\<rparr>, request_method = ''GET''\<rparr>
     \<lparr>shape = ViewSet ''list'', rbac_permissions = None,
      rbac_object_permissions = Some
        [(IsOwner None, [''retrieve'']),
         (HasRBACPermissions [SCHEDULES_WRITE], [''update'', ''destroy'']),
         (IsOwner None, [''destroy''])]\<rparr>
     1
     = Inr False
   \<and> RBACPermission_has_object_permission example_heap
     \<lparr>user = \<lparr>ident = 1, permissions = []\<rparr>, request_method = ''GET''\<rparr>
     \<lparr>shape = ViewSet ''list'', rbac_permissions = None, rbac_object_permissions = Some []\<rparr>
     1
     = Inr True"
proof -
  let ?table = "[(IsOwner None, [''retrieve'']),
         (HasRBACPermissions [SCHEDULES_WRITE], [''update'', ''destroy'']),
         (IsOwner None, [''destroy''])]"
  let ?destroy = "\<lparr>shape = ViewSet ''destroy'', rbac_permissions = None,
      rbac_object_permissions = Some ?table\<rparr>"
  let ?list = "\<lparr>shape = ViewSet ''list'', rbac_permissions = None,
      rbac_object_permissions = Some ?table\<rparr>"
  let ?empty = "\<lparr>shape = ViewSet ''list'', rbac_permissions = None,
      rbac_object_permissions = Some []\<rparr>"
  let ?delete = "\<lparr>user = \<lparr>ident = 1, permissions = []\<rparr>, request_method = ''DELETE''\<rparr>"
  let ?get = "\<lparr>user = \<lparr>ident = 1, permissions = []\<rparr>, request_method = ''GET''\<rparr>"
  have d: "rbac_object_permissions ?destroy = Some ?table" by simp
  have l: "rbac_object_permissions ?list = Some ?table" by simp
  have e: "rbac_object_permissions ?empty = Some []" by simp
  have 1: "RBACPermission_has_object_permission example_heap ?delete ?destroy 1 = Inr False"
    using RBACPermission_has_object_permission_first_match
      [OF d, of "[(IsOwner None, [''retrieve''])]" "HasRBACPermissions [SCHEDULES_WRITE]"
         "[''update'', ''destroy'']" "[(IsOwner None, [''destroy''])]" ?delete example_heap 1,
       THEN conjunct1]
    by (simp add: HasRBACPermissions_has_object_permission_def)
  have 2: "RBACPermission_has_object_permission example_heap ?get ?list 1 = Inr False"
    using RBACPermission_has_object_permission_first_match
      [OF l, of "[]" "IsOwner None" "[]" "[]" ?get example_heap 1,
       THEN conjunct2, THEN conjunct1]
    by simp
  have 3: "RBACPermission_has_object_permission example_heap ?get ?empty 1 = Inr True"
    using RBACPermission_has_object_permission_first_match
      [OF e, of "[]" "IsOwner None" "[]" "[]" ?get example_heap 1,
       THEN conjunct2, THEN conjunct2]
    by simp
  from 1 2 3 show ?thesis by blast
qed

subsection \<open>Properties of the object-level policies\<close>

lemma split_dot_not_Nil: "split_dot s \<noteq> []"
  by (induction s) (auto split: list.splits)

lemma split_dot_no_dot: "CHR ''.'' \<notin> set n \<Longrightarrow> split_dot n = [n]"
  by (induction n) auto

lemma split_dot_append_dot:
  "CHR ''.'' \<notin> set n \<Longrightarrow> split_dot (n @ CHR ''.'' # rest) = n # split_dot rest"
  by (induction n) auto

lemma split_dot_dotted:
  "names \<noteq> [] \<Longrightarrow> \<forall>n \<in> set names. CHR ''.'' \<notin> set n \<Longrightarrow> split_dot (dotted names) = names"
proof (induction names rule: dotted.induct)
  case 1
  then show ?case by simp
next
  case (2 name)
  then show ?case by (simp add: split_dot_no_dot)
next
  case (3 name v va)
  then show ?case by (simp add: split_dot_append_dot)
qed

lemma walk_append:
  "walk h obj (xs @ ys) = (case walk h obj xs of Inl e \<Rightarrow> Inl e | Inr v \<Rightarrow> walk h v ys)"
  by (induction xs arbitrary: obj) (auto split: sum.splits)

lemma walk_missing:
  assumes "walk h obj (take k names) = Inr v" and "k < length names"
    and "h v (names ! k) = None"
  shows "walk h obj names = Inl (AttributeError (names ! k))"
proof -
  have "names = take k names @ (names ! k # drop (Suc k) names)"
    using assms(2) by (simp add: id_take_nth_drop [symmetric])
  then have "walk h obj names = walk h obj (take k names @ (names ! k # drop (Suc k) names))"
    by simp
  also have "\<dots> = walk h v (names ! k # drop (Suc k) names)"
    using assms(1) by (simp only: walk_append sum.case)
  also have "\<dots> = Inl (AttributeError (names ! k))"
    using assms(3) by (simp add: getattr_def)
  finally show ?thesis .
qed

text \<open>
  Claim C6. \<^verbatim>\<open>IsOwner\<close> without a path returns whether the object is the requesting
  user. With a path that resolves, it returns whether the value the path resolves to is
  the requesting user: for a path written from attribute names joined by dots that is the
  value reached by reading the names one after the other, and for
  \<^verbatim>\<open>"schedule.user"\<close> it is \<^verbatim>\<open>obj.schedule.user\<close>.
\<close>

theorem IsOwner_has_object_permission_compares_owner:
  "IsOwner_has_object_permission h None request view obj = Inr (obj = ident (user request))
   \<and> (getattrd h obj path = Inr owner \<longrightarrow>
        IsOwner_has_object_permission h (Some path) request view obj
          = Inr (owner = ident (user request)))
   \<and> (names \<noteq> [] \<and> (\<forall>n \<in> set names. CHR ''.'' \<notin> set n) \<and> walk h obj names = Inr owner' \<longrightarrow>
        IsOwner_has_object_permission h (Some (dotted names)) request view obj
          = Inr (owner' = ident (user request)))
   \<and> (getattr h obj ''schedule'' = Inr schedule \<and> getattr h schedule ''user'' = Inr u \<longrightarrow>
        IsOwner_has_object_permission h (Some ''schedule.user'') request view obj
          = Inr (u = ident (user request)))"
proof -
  have a: "IsOwner_has_object_permission h None request view obj
      = Inr (obj = ident (user request))"
    by (simp add: IsOwner_has_object_permission_def)
  have b: "IsOwner_has_object_permission h (Some path) request view obj
      = Inr (owner = ident (user request))" if "getattrd h obj path = Inr owner"
    using that by (simp add: IsOwner_has_object_permission_def)
  have c: "IsOwner_has_object_permission h (Some (dotted names)) request view obj
      = Inr (owner' = ident (user request))"
    if "names \<noteq> []" "\<forall>n \<in> set names. CHR ''.'' \<notin> set n" "walk h obj names = Inr owner'"
    using that by (simp add: IsOwner_has_object_permission_def getattrd_def split_dot_dotted)
  have d: "IsOwner_has_object_permission h (Some ''schedule.user'') request view obj
      = Inr (u = ident (user request))"
    if "getattr h obj ''schedule'' = Inr schedule" "getattr h schedule ''user'' = Inr u"
    using that by (simp add: IsOwner_has_object_permission_def getattrd_def)
  from a b c d show ?thesis by blast
qed

theorem IsOwner_has_object_permission_compares_owner_witness:
  "IsOwner_has_object_permission example_heap None
     \<lparr>user = \<lparr>ident = 1, permissions = []\<rparr>, request_method = ''GET''\<rparr>
     \<lparr>shape = APIView, rbac_permissions = None, rbac_object_permissions = None\<rparr> 1 = Inr True
   \<and> IsOwner_has_object_permission example_heap (Some ''user'')
     \<lparr>user = \<lparr>ident = 1, permissions = []\<rparr>, request_method = ''GET''\<rparr>
     \<lparr>shape = APIView, rbac_permissions = None, rbac_object_permissions = None\<rparr> 2 = Inr True
   \<and> IsOwner_has_object_permission example_heap (Some ''schedule.user'')
     \<lparr>user = \<lparr>ident = 1, permissions = []\<rparr>, request_method = ''GET''\<rparr>
     \<lparr>shape = APIView, rbac_permissions = None, rbac_object_permissions = None\<rparr> 3 = Inr True
   \<and> IsOwner_has_object_permission example_heap (Some ''schedule.user'')
     \<lparr>user = \<lparr>ident = 4, permissions = []\<rparr>, request_method = ''GET''\<rparr>
     \<lparr>shape = APIView, rbac_permissions = None, rbac_object_permissions = None\<rparr> 3 = Inr False"
proof -
  let ?view = "\<lparr>shape = APIView, rbac_permissions = None, rbac_object_permissions = None\<rparr>"
  let ?user1 = "\<lparr>user = \<lparr>ident = 1, permissions = []\<rparr>, request_method = ''GET''\<rparr>"
  let ?user2 = "\<lparr>user = \<lparr>ident = 4, permissions = []\<rparr>, request_method = ''GET''\<rparr>"
  have g: "getattrd example_heap 2 ''user'' = Inr 1"
    by (simp add: getattrd_def getattr_def example_heap_def)
  have w: "[''schedule'', ''user''] \<noteq> []
      \<and> (\<forall>n \<in> set [''schedule'', ''user'']. CHR ''.'' \<notin> set n)
      \<and> walk example_heap 3 [''schedule'', ''user''] = Inr 1"
    by (simp add: getattr_def example_heap_def)
  have s: "getattr example_heap 3 ''schedule'' = Inr 2 \<and> getattr example_heap 2 ''user'' = Inr 1"
    by (simp add: getattr_def example_heap_def)
  note t1 = IsOwner_has_object_permission_compares_owner
    [of example_heap ?user1 ?view 1 "''user''" 1 "[''schedule'', ''user'']" 1 2 1]
  note t2 = IsOwner_has_object_permission_compares_owner
    [of example_heap ?user1 ?view 2 "''user''" 1 "[''schedule'', ''user'']" 1 2 1]
  note t3 = IsOwner_has_object_permission_compares_owner
    [of example_heap ?user1 ?view 3 "''user''" 1 "[''schedule'', ''user'']" 1 2 1]
  note t4 = IsOwner_has_object_permission_compares_owner
    [of example_heap ?user2 ?view 3 "''user''" 1 "[''schedule'', ''user'']" 1 2 1]
  have 1: "IsOwner_has_object_permission example_heap None ?user1 ?view 1 = Inr True"
    using t1 [THEN conjunct1] by simp
  have 2: "IsOwner_has_object_permission example_heap (Some ''user'') ?user1 ?view 2 = Inr True"
    using t2 [THEN conjunct2, THEN conjunct1, rule_format, OF g] by simp
  have 3: "IsOwner_has_object_permission example_heap (Some ''schedule.user'') ?user1 ?view 3
      = Inr True"
    using t3 [THEN conjunct2, THEN conjunct2, THEN conjunct1, rule_format, OF w] by simp
  have 4: "IsOwner_has_object_permission example_heap (Some ''schedule.user'') ?user2 ?view 3
      = Inr False"
    using t4 [THEN conjunct2, THEN conjunct2, THEN conjunct2, rule_format, OF s] by simp
  from 1 2 3 4 show ?thesis by blast
qed

text \<open>
  Claim C7. When the path of \<^verbatim>\<open>IsOwner\<close> does not resolve against the object (the
  names before some position resolve to a value on which the next name is not an
  attribute), the check raises \<^verbatim>\<open>AttributeError\<close> for that name. Whatever error the
  resolution raises is what the check raises, and it does not return false.
\<close>

theorem IsOwner_has_object_permission_unresolved_path_raises:
  "(walk h obj (take k (split_dot path)) = Inr v \<and> k < length (split_dot path)
      \<and> h v (split_dot path ! k) = None \<longrightarrow>
    IsOwner_has_object_permission h (Some path) request view obj
      = Inl (AttributeError (split_dot path ! k)))
   \<and> (getattrd h obj path = Inl e \<longrightarrow>
    IsOwner_has_object_permission h (Some path) request view obj = Inl e
    \<and> IsOwner_has_object_permission h (Some path) request view obj \<noteq> Inr False)"
proof -
  have a: "IsOwner_has_object_permission h (Some path) request view obj
      = Inl (AttributeError (split_dot path ! k))"
    if "walk h obj (take k (split_dot path)) = Inr v" "k < length (split_dot path)"
      "h v (split_dot path ! k) = None"
    using walk_missing [OF that]
    by (simp add: IsOwner_has_object_permission_def getattrd_def)
  have b: "IsOwner_has_object_permission h (Some path) request view obj = Inl e
      \<and> IsOwner_has_object_permission h (Some path) request view obj \<noteq> Inr False"
    if "getattrd h obj path = Inl e"
    using that by (simp add: IsOwner_has_object_permission_def)
  from a b show ?thesis by blast
qed

theorem IsOwner_has_object_permission_unresolved_path_raises_witness:
  "IsOwner_has_object_permission example_heap (Some ''schedule.owner'')
     \<lparr>user = \<lparr>ident = 1, permissions = []\<rparr>, request_method = ''GET''\<rparr>
     \<lparr>shape = APIView, rbac_permissions = None, rbac_object_permissions = None\<rparr> 3
     = Inl (AttributeError ''owner'')
   \<and> IsOwner_has_object_permission example_heap (Some ''user'')
     \<lparr>user = \<lparr>ident = 1, permissions = []\<rparr>, request_method = ''GET''\<rparr>
     \<lparr>shape = APIView, rbac_permissions = None, rbac_object_permissions = None\<rparr> 3
     = Inl (AttributeError ''user'')"
proof -
  let ?view = "\<lparr>shape = APIView, rbac_permissions = None, rbac_object_permissions = None\<rparr>"
  let ?request = "\<lparr>user = \<lparr>ident = 1, permissions = []\<rparr>, request_method = ''GET''\<rparr>"
  have p: "walk example_heap 3 (take 1 (split_dot ''schedule.owner'')) = Inr 2
      \<and> 1 < length (split_dot ''schedule.owner'')
      \<and> example_heap 2 (split_dot ''schedule.owner'' ! 1) = None"
    by (simp add: getattr_def example_heap_def)
  have g: "getattrd example_heap 3 ''user'' = Inl (AttributeError ''user'')"
    by (simp add: getattrd_def getattr_def example_heap_def)
  have 1: "IsOwner_has_object_permission example_heap (Some ''schedule.owner'') ?request ?view 3
      = Inl (AttributeError ''owner'')"
    using IsOwner_has_object_permission_unresolved_path_raises
      [of example_heap 3 1 "''schedule.owner''" 2 ?request ?view "AttributeError ''owner''",
       THEN conjunct1, rule_format, OF p]
    by simp
  have 2: "IsOwner_has_object_permission example_heap (Some ''user'') ?request ?view 3
      = Inl (AttributeError ''user'')"
    using IsOwner_has_object_permission_unresolved_path_raises
      [of example_heap 3 1 "''user''" 2 ?request ?view "AttributeError ''user''",
       THEN conjunct2, rule_format, OF g]
    by simp
  from 1 2 show ?thesis by blast
qed

text \<open>
  Claim C8 says that \<^verbatim>\<open>IsOwnerOrHasRBACPermissions\<close> returns true whenever one of its
  two checks returns true, for every object. On an object without the \<^verbatim>\<open>user\<close>
  attribute the ownership check raises, so the disjunction raises too, although the user
  holds the required permission and the permission check alone returns true.
\<close>

theorem IsOwnerOrHasRBACPermissions_raises_despite_permission:
  "HasRBACPermissions_has_object_permission [SCHEDULES_READ]
     \<lparr>user = \<lparr>ident = 4, permissions = [\<lparr>action = ''grafana-oncall-app.schedules:read''\<rparr>]\<rparr>,
      request_method = ''GET''\<rparr>
     \<lparr>shape = APIView, rbac_permissions = None, rbac_object_permissions = None\<rparr> 3
     = Inr True
   \<and> IsOwner_has_object_permission example_heap (Some ''user'')
     \<lparr>user = \<lparr>ident = 4, permissions = [\<lparr>action = ''grafana-oncall-app.schedules:read''\<rparr>]\<rparr>,
      request_method = ''GET''\<rparr>
     \<lparr>shape = APIView, rbac_permissions = None, rbac_object_permissions = None\<rparr> 3
     = Inl (AttributeError ''user'')
   \<and> IsOwnerOrHasRBACPermissions_has_object_permission example_heap [SCHEDULES_READ]
     (Some ''user'')
     \<lparr>user = \<lparr>ident = 4, permissions = [\<lparr>action = ''grafana-oncall-app.schedules:read''\<rparr>]\<rparr>,
      request_method = ''GET''\<rparr>
     \<lparr>shape = APIView, rbac_permissions = None, rbac_object_permissions = None\<rparr> 3
     = Inl (AttributeError ''user'')
   \<and> IsOwnerOrHasRBACPermissions_has_object_permission example_heap [SCHEDULES_READ]
     (Some ''user'')
     \<lparr>user = \<lparr>ident = 4, permissions = [\<lparr>action = ''grafana-oncall-app.schedules:read''\<rparr>]\<rparr>,
      request_method = ''GET''\<rparr>
     \<lparr>shape = APIView, rbac_permissions = None, rbac_object_permissions = None\<rparr> 3
     \<noteq> Inr True"
  by (simp add: IsOwnerOrHasRBACPermissions_has_object_permission_def
      IsOwner_has_object_permission_def HasRBACPermissions_has_object_permission_def
      getattrd_def getattr_def example_heap_def generate_permission_string_def ACTION_PREFIX_def)

text \<open>
  Claim C8, amended. The permission check of \<^verbatim>\<open>HasRBACPermissions\<close> is
  \<^verbatim>\<open>has_permissions\<close> of the user's permissions and the configured list, whatever the
  view and the object. Whenever the ownership check returns a boolean,
  \<^verbatim>\<open>IsOwnerOrHasRBACPermissions\<close> returns the disjunction of the two checks: true
  exactly when one of them returns true. When the ownership check raises, it raises the
  same error.
\<close>

theorem IsOwnerOrHasRBACPermissions_is_disjunction:
  "HasRBACPermissions_has_object_permission required_permissions request view obj
     = Inr (has_permissions (permissions (user request)) required_permissions)
   \<and> HasRBACPermissions_has_object_permission required_permissions request view obj
     = HasRBACPermissions_has_object_permission required_permissions request view' obj'
   \<and> (IsOwner_has_object_permission h ownership_field request view obj = Inr is_owner \<longrightarrow>
      IsOwnerOrHasRBACPermissions_has_object_permission h required_permissions ownership_field
          request view obj
        = Inr (is_owner \<or> has_permissions (permissions (user request)) required_permissions)
      \<and> (IsOwnerOrHasRBACPermissions_has_object_permission h required_permissions
            ownership_field request view obj = Inr True
          \<longleftrightarrow> IsOwner_has_object_permission h ownership_field request view obj = Inr True
            \<or> HasRBACPermissions_has_object_permission required_permissions request view obj
                = Inr True))
   \<and> (IsOwner_has_object_permission h ownership_field request view obj = Inl e \<longrightarrow>
      IsOwnerOrHasRBACPermissions_has_object_permission h required_permissions ownership_field
          request view obj = Inl e)"
proof -
  have a: "HasRBACPermissions_has_object_permission required_permissions request view obj
      = Inr (has_permissions (permissions (user request)) required_permissions)"
    by (simp add: HasRBACPermissions_has_object_permission_def)
  have b: "HasRBACPermissions_has_object_permission required_permissions request view obj
      = HasRBACPermissions_has_object_permission required_permissions request view' obj'"
    by (simp add: HasRBACPermissions_has_object_permission_def)
  have c: "IsOwnerOrHasRBACPermissions_has_object_permission h required_permissions
        ownership_field request view obj
      = Inr (is_owner \<or> has_permissions (permissions (user request)) required_permissions)"
    if "IsOwner_has_object_permission h ownership_field request view obj = Inr is_owner"
    using that
    by (cases is_owner)
      (simp_all add: IsOwnerOrHasRBACPermissions_has_object_permission_def
        HasRBACPermissions_has_object_permission_def)
  have d: "IsOwnerOrHasRBACPermissions_has_object_permission h required_permissions
        ownership_field request view obj = Inr True
      \<longleftrightarrow> IsOwner_has_object_permission h ownership_field request view obj = Inr True
        \<or> HasRBACPermissions_has_object_permission required_permissions request view obj
            = Inr True"
    if "IsOwner_has_object_permission h ownership_field request view obj = Inr is_owner"
    using c [OF that] that a by simp
  have e: "IsOwnerOrHasRBACPermissions_has_object_permission h required_permissions
        ownership_field request view obj = Inl e"
    if "IsOwner_has_object_permission h ownership_field request view obj = Inl e"
    using that by (simp add: IsOwnerOrHasRBACPermissions_has_object_permission_def)
  from a b c d e show ?thesis by blast
qed

theorem IsOwnerOrHasRBACPermissions_is_disjunction_witness:
  "IsOwnerOrHasRBACPermissions_has_object_permission example_heap [SCHEDULES_READ]
     (Some ''user'')
     \<lparr>user = \<lparr>ident = 4, permissions = [\<lparr>action = ''grafana-oncall-app.schedules:read''\<rparr>]\<rparr>,
      request_method = ''GET''\<rparr>
     \<lparr>shape = APIView, rbac_permissions = None, rbac_object_permissions = None\<rparr> 2
     = Inr True
   \<and> IsOwnerOrHasRBACPermissions_has_object_permission example_heap [SCHEDULES_READ]
     (Some ''user'')
     \<lparr>user = \<lparr>ident = 1, permissions = []\<rparr>, request_method = ''GET''\<rparr>
     \<lparr>shape = APIView, rbac_permissions = None, rbac_object_permissions = None\<rparr> 2
     = Inr True
   \<and> IsOwnerOrHasRBACPermissions_has_object_permission example_heap [SCHEDULES_READ]
     (Some ''user'')
     \<lparr>user = \<lparr>ident = 4, permissions = []\<rparr>, request_method = ''GET''\<rparr>
     \<lparr>shape = APIView, rbac_permissions = None, rbac_object_permissions = None\<rparr> 2
     = Inr False
   \<and> IsOwnerOrHasRBACPermissions_has_object_permission example_heap [SCHEDULES_READ]
     (Some ''user'')
     \<lparr>user = \<lparr>ident = 4, permissions = []\<rparr>, request_method = ''GET''\<rparr>
     \<lparr>shape = APIView, rbac_permissions = None, rbac_object_permissions = None\<rparr> 3
     = Inl (AttributeError ''user'')"
proof -
  let ?view = "\<lparr>shape = APIView, rbac_permissions = None, rbac_object_permissions = None\<rparr>"
  let ?reader = "\<lparr>user = \<lparr>ident = 4,
      permissions = [\<lparr>action = ''grafana-oncall-app.schedules:read''\<rparr>]\<rparr>,
      request_method = ''GET''\<rparr>"
  let ?owner = "\<lparr>user = \<lparr>ident = 1, permissions = []\<rparr>, request_method = ''GET''\<rparr>"
  let ?other = "\<lparr>user = \<lparr>ident = 4, permissions = []\<rparr>, request_method = ''GET''\<rparr>"
  note defs = IsOwner_has_object_permission_def getattrd_def getattr_def example_heap_def
  note vals = generate_permission_string_def ACTION_PREFIX_def
  have o1: "IsOwner_has_object_permission example_heap (Some ''user'') ?reader ?view 2 = Inr False"
    by (simp add: defs)
  have o2: "IsOwner_has_object_permission example_heap (Some ''user'') ?owner ?view 2 = Inr True"
    by (simp add: defs)
  have o3: "IsOwner_has_object_permission example_heap (Some ''user'') ?other ?view 2 = Inr False"
    by (simp add: defs)
  have o4: "IsOwner_has_object_permission example_heap (Some ''user'') ?other ?view 3
      = Inl (AttributeError ''user'')"
    by (simp add: defs)
  have 1: "IsOwnerOrHasRBACPermissions_has_object_permission example_heap [SCHEDULES_READ]
      (Some ''user'') ?reader ?view 2 = Inr True"
    using IsOwnerOrHasRBACPermissions_is_disjunction
      [of "[SCHEDULES_READ]" ?reader ?view 2 ?view 2 example_heap "Some ''user''" False
          "AttributeError ''user''",
       THEN conjunct2, THEN conjunct2, THEN conjunct1, rule_format, OF o1, THEN conjunct1]
    by (simp add: vals)
  have 2: "IsOwnerOrHasRBACPermissions_has_object_permission example_heap [SCHEDULES_READ]
      (Some ''user'') ?owner ?view 2 = Inr True"
    using IsOwnerOrHasRBACPermissions_is_disjunction
      [of "[SCHEDULES_READ]" ?owner ?view 2 ?view 2 example_heap "Some ''user''" True
          "AttributeError ''user''",
       THEN conjunct2, THEN conjunct2, THEN conjunct1, rule_format, OF o2, THEN conjunct1]
    by simp
  have 3: "IsOwnerOrHasRBACPermissions_has_object_permission example_heap [SCHEDULES_READ]
      (Some ''user'') ?other ?view 2 = Inr False"
    using IsOwnerOrHasRBACPermissions_is_disjunction
      [of "[SCHEDULES_READ]" ?other ?view 2 ?view 2 example_heap "Some ''user''" False
          "AttributeError ''user''",
       THEN conjunct2, THEN conjunct2, THEN conjunct1, rule_format, OF o3, THEN conjunct1]
    by simp
  have 4: "IsOwnerOrHasRBACPermissions_has_object_permission example_heap [SCHEDULES_READ]
      (Some ''user'') ?other ?view 3 = Inl (AttributeError ''user'')"
    using IsOwnerOrHasRBACPermissions_is_disjunction
      [of "[SCHEDULES_READ]" ?other ?view 3 ?view 3 example_heap "Some ''user''" False
          "AttributeError ''user''",
       THEN conjunct2, THEN conjunct2, THEN conjunct2, rule_format, OF o4]
    by simp
  from 1 2 3 4 show ?thesis by blast
qed

end
